theory Spec2Isabelle
  imports Complex_Main "HOL-Library.Log_Nat" "HOL-Library.Sublist"
begin

section \<open>Python values\<close>

text \<open>
  A Python float is an IEEE 754 binary64 number. A finite one is modelled by the
  rational number it denotes (so \<open>-0.0\<close> and \<open>0.0\<close>, which Python's \<open>==\<close> identifies,
  are the same value here); the two infinities and NaN are separate values.
\<close>

datatype pyfloat = Finite rat | PosInf | NegInf | NaN

text \<open>
  What \<open>response.json()\<close> can return: \<open>None\<close>, a bool, an int (unbounded), a float,
  a str, a list or a dict whose keys are strings. A dict is an association list read
  with \<open>map_of\<close>.
\<close>

datatype pyval =
    PNone
  | PBool bool
  | PInt int
  | PFloat pyfloat
  | PStr string
  | PList "pyval list"
  | PDict "(string \<times> pyval) list"

text \<open>
  The exceptions that occur: the repository's own \<open>WeatherAPIError\<close>, the built-in
  ones, and \<open>requests.RequestException\<close> standing for itself and all its subclasses.
  The string is \<open>str(e)\<close>.
\<close>

datatype exn =
    WeatherAPIError string
  | ValueError string
  | RequestException string
  | KeyError
  | IndexError
  | TypeError
  | OverflowError

text \<open>Sequencing of two steps, the first of which may raise.\<close>

definition and_then :: "exn + 'a \<Rightarrow> ('a \<Rightarrow> exn + 'b) \<Rightarrow> exn + 'b" where
  "and_then r f = (case r of Inl e \<Rightarrow> Inl e | Inr x \<Rightarrow> f x)"

subsection \<open>Float arithmetic\<close>

text \<open>\<open>floor_log2 q\<close> is the integer \<open>e\<close> with \<open>2^e \<le> q < 2^(e+1)\<close>, for \<open>q > 0\<close>.\<close>

definition floor_log2 :: "rat \<Rightarrow> int" where
  "floor_log2 q =
     (if 1 \<le> q then bitlen \<lfloor>q\<rfloor> - 1
      else let k = bitlen \<lfloor>1 / q\<rfloor> - 1
           in if 1 / q = 2 ^ nat k then - k else - (k + 1))"

definition pow2 :: "int \<Rightarrow> rat" where
  "pow2 e = (if 0 \<le> e then of_int (2 ^ nat e) else 1 / of_int (2 ^ nat (- e)))"

definition round_half_even :: "rat \<Rightarrow> int" where
  "round_half_even x =
     (let f = \<lfloor>x\<rfloor>; r = x - of_int f
      in if r < 1 / 2 then f
         else if 1 / 2 < r then f + 1
         else if even f then f else f + 1)"

text \<open>
  Rounding of an exact value to the nearest binary64 number, ties to even: 53 bits of
  significand, the exponent not below -1022 (subnormal numbers), overflow to infinity.
  This is what the parser does with a decimal literal and what every arithmetic
  operation does with its exact result.
\<close>

definition to_double :: "rat \<Rightarrow> pyfloat" where
  "to_double q =
     (if q = 0 then Finite 0
      else let a = \<bar>q\<bar>;
               e = max (floor_log2 a) (- 1022);
               ulp = pow2 (e - 52);
               m = round_half_even (a / ulp);
               v = of_int m * ulp
           in if 1024 \<le> e \<or> (e = 1023 \<and> m = 2 ^ 53)
              then (if 0 < q then PosInf else NegInf)
              else Finite (if 0 < q then v else - v))"

text \<open>\<open>x - y\<close> on floats.\<close>

fun float_sub :: "pyfloat \<Rightarrow> pyfloat \<Rightarrow> pyfloat" where
  "float_sub NaN y = NaN"
| "float_sub x NaN = NaN"
| "float_sub PosInf PosInf = NaN"
| "float_sub NegInf NegInf = NaN"
| "float_sub PosInf y = PosInf"
| "float_sub NegInf y = NegInf"
| "float_sub (Finite a) PosInf = NegInf"
| "float_sub (Finite a) NegInf = PosInf"
| "float_sub (Finite a) (Finite b) = to_double (a - b)"

text \<open>
  The conversion of an int operand to float: correctly rounded, and
  \<open>OverflowError\<close> when the int is too large for a float.
\<close>

definition float_of_int :: "int \<Rightarrow> exn + pyfloat" where
  "float_of_int n =
     (case to_double (of_int n) of Finite q \<Rightarrow> Inr (Finite q) | _ \<Rightarrow> Inl OverflowError)"

text \<open>
  \<open>v - c\<close> for a float \<open>c\<close> on the right: a float, an int or a bool on the left is
  converted to float, anything else raises \<open>TypeError\<close>.
\<close>

definition py_sub :: "pyval \<Rightarrow> pyfloat \<Rightarrow> exn + pyfloat" where
  "py_sub v c =
     (case v of
        PFloat x \<Rightarrow> Inr (float_sub x c)
      | PInt n \<Rightarrow> and_then (float_of_int n) (\<lambda>x. Inr (float_sub x c))
      | PBool b \<Rightarrow> and_then (float_of_int (if b then 1 else 0)) (\<lambda>x. Inr (float_sub x c))
      | _ \<Rightarrow> Inl TypeError)"

text \<open>
  \<open>round(x, ndigits)\<close> on a float, for the small non-negative \<open>ndigits\<close> of the
  source: infinities and NaN round to themselves; a finite value is rounded, as the
  exact number it is, to \<open>ndigits\<close> decimals with ties to even, and the decimal is
  converted back to the nearest float.
\<close>

definition py_round :: "pyfloat \<Rightarrow> nat \<Rightarrow> pyfloat" where
  "py_round x ndigits =
     (case x of
        Finite q \<Rightarrow> to_double (of_int (round_half_even (q * 10 ^ ndigits)) / 10 ^ ndigits)
      | _ \<Rightarrow> x)"

text \<open>The literal \<open>273.15\<close> of the source.\<close>

definition c273_15 :: pyfloat where
  "c273_15 = to_double (27315 / 100)"

text \<open>The float that the decimal \<open>298.15\<close> denotes.\<close>

definition c298_15 :: pyfloat where
  "c298_15 = to_double (29815 / 100)"

subsection \<open>Subscription\<close>

text \<open>
  \<open>obj[key]\<close> with a string key: only a dict accepts it, and raises \<open>KeyError\<close> when
  the key is absent.
\<close>

definition getitem_str :: "pyval \<Rightarrow> string \<Rightarrow> exn + pyval" where
  "getitem_str obj key =
     (case obj of
        PDict d \<Rightarrow> (case map_of d key of None \<Rightarrow> Inl KeyError | Some v \<Rightarrow> Inr v)
      | _ \<Rightarrow> Inl TypeError)"

text \<open>
  \<open>obj[i]\<close> with an int index: a list or a str is indexed (a negative index counts
  from the end) and raises \<open>IndexError\<close> out of range; a dict of string keys has no int
  key; anything else is not subscriptable.
\<close>

definition seq_index :: "'a list \<Rightarrow> int \<Rightarrow> exn + 'a" where
  "seq_index xs i =
     (if - int (length xs) \<le> i \<and> i < int (length xs)
      then Inr (xs ! nat (if i < 0 then i + int (length xs) else i))
      else Inl IndexError)"

definition getitem_int :: "pyval \<Rightarrow> int \<Rightarrow> exn + pyval" where
  "getitem_int obj i =
     (case obj of
        PList xs \<Rightarrow> seq_index xs i
      | PStr s \<Rightarrow> and_then (seq_index s i) (\<lambda>c. Inr (PStr [c]))
      | PDict d \<Rightarrow> Inl KeyError
      | _ \<Rightarrow> Inl TypeError)"

subsection \<open>Comparison\<close>

text \<open>Whether a value is, or holds somewhere inside, a NaN.\<close>

fun has_nan :: "pyval \<Rightarrow> bool" where
  "has_nan (PFloat x) = (x = NaN)"
| "has_nan (PList xs) = (\<exists>x \<in> set xs. has_nan x)"
| "has_nan (PDict d) = (\<exists>(k, v) \<in> set d. has_nan v)"
| "has_nan v = False"

text \<open>\<open>x == y\<close> on floats: a NaN equals nothing, itself included.\<close>

definition float_eq :: "pyfloat \<Rightarrow> pyfloat \<Rightarrow> bool" where
  "float_eq x y = (x \<noteq> NaN \<and> x = y)"

text \<open>
  The number a bool, an int or a float stands for in a comparison (an int is compared
  with a float exactly, not after conversion).
\<close>

definition number_of :: "pyval \<Rightarrow> pyfloat option" where
  "number_of v =
     (case v of
        PBool b \<Rightarrow> Some (Finite (if b then 1 else 0))
      | PInt n \<Rightarrow> Some (Finite (of_int n))
      | PFloat x \<Rightarrow> Some x
      | _ \<Rightarrow> None)"

text \<open>
  \<open>v == w\<close> on values, by value: lists element by element, dicts key by key,
  strings as they are, numbers by what they stand for, values of different kinds
  unequal. (CPython also takes two occurrences of the very same object inside a list
  or dict to be equal without comparing them; values here carry no identity, which
  makes a difference only for a NaN inside a list or dict.)
\<close>

fun py_eq :: "pyval \<Rightarrow> pyval \<Rightarrow> bool" where
  "py_eq (PList xs) (PList ys) = list_all2 py_eq xs ys"
| "py_eq (PDict a) (PDict b) =
     (set (map fst a) = set (map fst b)
      \<and> (\<forall>(k, x) \<in> set a. map_of a k = Some x \<longrightarrow>
            (case map_of b k of Some y \<Rightarrow> py_eq x y | None \<Rightarrow> False)))"
| "py_eq (PStr s) (PStr t) = (s = t)"
| "py_eq PNone PNone = True"
| "py_eq v w =
     (case (number_of v, number_of w) of
        (Some x, Some y) \<Rightarrow> float_eq x y
      | _ \<Rightarrow> False)"

section \<open>WeatherAPI\<close>

record WeatherAPI =
  api_key :: string
  base_url :: string

definition WeatherAPI_init :: "string \<Rightarrow> WeatherAPI" where
  "WeatherAPI_init key =
     \<lparr>api_key = key, base_url = ''https://api.openweathermap.org/data/2.5/weather''\<rparr>"

text \<open>
  The \<open>requests\<close> library is outside the repository. A response is what the source
  asks of it: \<open>raise_for_status()\<close> returns or raises, \<open>json()\<close> returns the parsed
  body or raises. The transport \<open>requests.get\<close> maps a URL to a response or raises.
\<close>

record response =
  raise_for_status :: "exn option"
  json :: "exn + pyval"

type_synonym transport = "string \<Rightarrow> exn + response"

text \<open>
  \<open>get_weather\<close> returns the payload or raises; the second component is the list of
  URLs requested so far, extended by the one request this call makes. Of the
  exceptions raised in the \<open>try\<close> block, a \<open>RequestException\<close> is replaced by a
  \<open>WeatherAPIError\<close>; any other one passes through.
\<close>

definition get_weather ::
    "WeatherAPI \<Rightarrow> transport \<Rightarrow> string \<Rightarrow> string list \<Rightarrow> (exn + pyval) \<times> string list" where
  "get_weather self get city sent =
     (let url = base_url self @ ''?q='' @ city @ ''&appid='' @ api_key self;
          attempt = (case get url of
                       Inl e \<Rightarrow> Inl e
                     | Inr response \<Rightarrow>
                         (case raise_for_status response of
                            Some e \<Rightarrow> Inl e
                          | None \<Rightarrow> json response))
      in (case attempt of
            Inl (RequestException msg) \<Rightarrow>
              Inl (WeatherAPIError (''Failed to fetch weather data: '' @ msg))
          | other \<Rightarrow> other,
          sent @ [url]))"

section \<open>WeatherData\<close>

text \<open>The private attributes of the class; the properties below read them.\<close>

record WeatherData =
  raw_data :: pyval
  attr_climate :: pyval
  attr_description :: pyval
  attr_temperature :: pyfloat
  attr_pressure :: pyval
  attr_humidity :: pyval

definition process_data :: "pyval \<Rightarrow> exn + WeatherData" where
  "process_data raw =
     and_then (getitem_str raw ''weather'') (\<lambda>ws.
     and_then (getitem_int ws 0) (\<lambda>weather.
     and_then (getitem_str raw ''main'') (\<lambda>main_data.
     and_then (getitem_str weather ''main'') (\<lambda>c.
     and_then (getitem_str weather ''description'') (\<lambda>d.
     and_then (getitem_str main_data ''temp'') (\<lambda>k.
     and_then (py_sub k c273_15) (\<lambda>t.
     and_then (getitem_str main_data ''pressure'') (\<lambda>p.
     and_then (getitem_str main_data ''humidity'') (\<lambda>h.
       Inr \<lparr>raw_data = raw, attr_climate = c, attr_description = d,
            attr_temperature = t, attr_pressure = p, attr_humidity = h\<rparr>)))))))))"

definition WeatherData_init :: "pyval \<Rightarrow> exn + WeatherData" where
  "WeatherData_init raw = process_data raw"

definition climate :: "WeatherData \<Rightarrow> pyval" where
  "climate self = attr_climate self"

definition description :: "WeatherData \<Rightarrow> pyval" where
  "description self = attr_description self"

definition temperature :: "WeatherData \<Rightarrow> pyfloat" where
  "temperature self = py_round (attr_temperature self) 1"

definition pressure :: "WeatherData \<Rightarrow> pyval" where
  "pressure self = attr_pressure self"

definition humidity :: "WeatherData \<Rightarrow> pyval" where
  "humidity self = attr_humidity self"

section \<open>WeatherDisplay\<close>

text \<open>
  The \<open>text\<close> option of a label: the object given to \<open>config\<close>, or an f-string
  \<open>f"{v}suffix"\<close> kept as its value and its suffix.
\<close>

datatype label_text = Text pyval | FString pyval string

record WeatherDisplay =
  climate_value :: label_text
  desc_value :: label_text
  temp_value :: label_text
  pressure_value :: label_text
  humidity_value :: label_text

definition create_labels :: WeatherDisplay where
  "create_labels =
     \<lparr>climate_value = Text (PStr ''''), desc_value = Text (PStr ''''),
      temp_value = Text (PStr ''''), pressure_value = Text (PStr ''''),
      humidity_value = Text (PStr '''')\<rparr>"

definition update_display :: "WeatherDisplay \<Rightarrow> WeatherData \<Rightarrow> WeatherDisplay" where
  "update_display self weather_data =
     self\<lparr>climate_value := Text (climate weather_data),
          desc_value := Text (description weather_data),
          temp_value := FString (PFloat (temperature weather_data)) [CHR 0xB0, CHR ''C''],
          pressure_value := FString (pressure weather_data) '' hPa'',
          humidity_value := FString (humidity weather_data) ''%''\<rparr>"

section \<open>WeatherApp\<close>

record WeatherApp =
  city_name :: string
  api :: WeatherAPI
  display :: WeatherDisplay

definition WeatherApp_init :: WeatherApp where
  "WeatherApp_init = \<lparr>city_name = '''', api = WeatherAPI_init '''', display = create_labels\<rparr>"

text \<open>
  The application together with what it does to the outside: the lines printed and
  the URLs requested.
\<close>

record world =
  app :: WeatherApp
  stdout :: "string list"
  sent :: "string list"

text \<open>
  How one run of the button's callback ends: the labels updated, an exception caught
  and reported by \<open>show_error\<close>, or an exception leaving the callback.
\<close>

datatype outcome = Displayed | Reported exn | Raised exn

definition show_error :: "string \<Rightarrow> world \<Rightarrow> world" where
  "show_error message w = w\<lparr>stdout := stdout w @ [''Error: '' @ message]\<rparr>"

text \<open>The clause \<open>except (WeatherAPIError, ValueError) as e\<close>.\<close>

definition except_clause :: "exn \<Rightarrow> world \<Rightarrow> outcome \<times> world" where
  "except_clause e w =
     (case e of
        WeatherAPIError msg \<Rightarrow> (Reported e, show_error msg w)
      | ValueError msg \<Rightarrow> (Reported e, show_error msg w)
      | _ \<Rightarrow> (Raised e, w))"

definition fetch_weather :: "transport \<Rightarrow> world \<Rightarrow> outcome \<times> world" where
  "fetch_weather get w =
     (let city = city_name (app w)
      in if city = [] then except_clause (ValueError ''Please select a city'') w
         else
           (case get_weather (api (app w)) get city (sent w) of
              (Inl e, sent') \<Rightarrow> except_clause e (w\<lparr>sent := sent'\<rparr>)
            | (Inr raw, sent') \<Rightarrow>
                (case WeatherData_init raw of
                   Inl e \<Rightarrow> except_clause e (w\<lparr>sent := sent'\<rparr>)
                 | Inr weather_data \<Rightarrow>
                     (Displayed,
                      w\<lparr>sent := sent',
                        app := (app w)\<lparr>display :=
                                 update_display (display (app w)) weather_data\<rparr>\<rparr>))))"

section \<open>Stub transports and sample payloads\<close>

text \<open>A transport whose every response has a good status and the given parsed body.\<close>

definition stub_returning :: "pyval \<Rightarrow> transport" where
  "stub_returning payload = (\<lambda>url. Inr \<lparr>raise_for_status = None, json = Inr payload\<rparr>)"

text \<open>A transport whose \<open>requests.get\<close> raises.\<close>

definition stub_raising :: "exn \<Rightarrow> transport" where
  "stub_raising e = (\<lambda>url. Inl e)"

text \<open>A transport whose responses make \<open>raise_for_status()\<close> raise.\<close>

definition stub_bad_status :: "exn \<Rightarrow> transport" where
  "stub_bad_status e = (\<lambda>url. Inr \<lparr>raise_for_status = Some e, json = Inr PNone\<rparr>)"

text \<open>The shipped application after the user has put \<open>city\<close> into the combobox.\<close>

definition selected :: "string \<Rightarrow> world" where
  "selected city = \<lparr>app = WeatherApp_init\<lparr>city_name := city\<rparr>, stdout = [], sent = []\<rparr>"

text \<open>
  The payload
  \<^verbatim>\<open>{"weather":[{"main":"Clouds","description":"overcast clouds"}],
   "main":{"temp":298.15,"pressure":1012,"humidity":77}}\<close>.
\<close>

definition clouds_payload :: pyval where
  "clouds_payload =
     PDict [(''weather'', PList [PDict [(''main'', PStr ''Clouds''),
                                       (''description'', PStr ''overcast clouds'')]]),
            (''main'', PDict [(''temp'', PFloat c298_15),
                             (''pressure'', PInt 1012),
                             (''humidity'', PInt 77)])]"

text \<open>The same with \<open>"temp":273.15\<close>.\<close>

definition freezing_payload :: pyval where
  "freezing_payload =
     PDict [(''weather'', PList [PDict [(''main'', PStr ''Clouds''),
                                       (''description'', PStr ''overcast clouds'')]]),
            (''main'', PDict [(''temp'', PFloat c273_15),
                             (''pressure'', PInt 1012),
                             (''humidity'', PInt 77)])]"

text \<open>The records built from these two payloads.\<close>

definition clouds_record :: WeatherData where
  "clouds_record =
     \<lparr>raw_data = clouds_payload, attr_climate = PStr ''Clouds'',
      attr_description = PStr ''overcast clouds'', attr_temperature = Finite 25,
      attr_pressure = PInt 1012, attr_humidity = PInt 77\<rparr>"

definition freezing_record :: WeatherData where
  "freezing_record =
     \<lparr>raw_data = freezing_payload, attr_climate = PStr ''Clouds'',
      attr_description = PStr ''overcast clouds'', attr_temperature = Finite 0,
      attr_pressure = PInt 1012, attr_humidity = PInt 77\<rparr>"

text \<open>
  The payload
  \<^verbatim>\<open>{"weather":[{"main":"Clouds","description":"overcast clouds"}],
   "main":{"temp":300,"pressure":0,"humidity":101}}\<close>
  and the record built from it.
\<close>

definition odd_payload :: pyval where
  "odd_payload =
     PDict [(''weather'', PList [PDict [(''main'', PStr ''Clouds''),
                                       (''description'', PStr ''overcast clouds'')]]),
            (''main'', PDict [(''temp'', PInt 300),
                             (''pressure'', PInt 0),
                             (''humidity'', PInt 101)])]"

definition odd_record :: WeatherData where
  "odd_record =
     \<lparr>raw_data = odd_payload, attr_climate = PStr ''Clouds'',
      attr_description = PStr ''overcast clouds'',
      attr_temperature = Finite (236175097646285 / 8796093022208),
      attr_pressure = PInt 0, attr_humidity = PInt 101\<rparr>"

text \<open>The sample payload with \<open>"temp":NaN\<close>, and the record built from it.\<close>

definition nan_payload :: pyval where
  "nan_payload =
     PDict [(''weather'', PList [PDict [(''main'', PStr ''Clouds''),
                                       (''description'', PStr ''overcast clouds'')]]),
            (''main'', PDict [(''temp'', PFloat NaN),
                             (''pressure'', PInt 1012),
                             (''humidity'', PInt 77)])]"

definition nan_record :: WeatherData where
  "nan_record =
     \<lparr>raw_data = nan_payload, attr_climate = PStr ''Clouds'',
      attr_description = PStr ''overcast clouds'', attr_temperature = NaN,
      attr_pressure = PInt 1012, attr_humidity = PInt 77\<rparr>"

text \<open>
  The invariants the data model states for pressure and humidity: pressure an integer
  above 0, humidity an integer from 0 to 100.
\<close>

definition pressure_ok :: "pyval \<Rightarrow> bool" where
  "pressure_ok v = (case v of PInt p \<Rightarrow> 0 < p | _ \<Rightarrow> False)"

definition humidity_ok :: "pyval \<Rightarrow> bool" where
  "humidity_ok v = (case v of PInt h \<Rightarrow> 0 \<le> h \<and> h \<le> 100 | _ \<Rightarrow> False)"

section \<open>Facts about float rounding\<close>

text \<open>\<open>floor_log2\<close> is the binary exponent: \<open>2^e \<le> q < 2^(e+1)\<close>.\<close>

lemma pow2_eq_powi: "pow2 e = 2 powi e"
  by (simp add: pow2_def power_int_def field_simps)

lemma floor_bitlen_bounds:
  fixes r :: rat
  assumes "1 \<le> r"
  shows "2 ^ nat (bitlen \<lfloor>r\<rfloor> - 1) \<le> r" and "r < 2 ^ nat (bitlen \<lfloor>r\<rfloor>)"
    and "1 \<le> bitlen \<lfloor>r\<rfloor>"
proof -
  let ?n = "\<lfloor>r\<rfloor>"
  from assms have n: "0 < ?n" by simp
  from bitlen_bounds [OF n]
  have lo: "2 ^ nat (bitlen ?n - 1) \<le> ?n" and hi: "?n < 2 ^ nat (bitlen ?n)" by simp_all
  from lo have "(of_int (2 ^ nat (bitlen ?n - 1)) :: rat) \<le> of_int ?n"
    by (simp only: of_int_le_iff)
  also have "\<dots> \<le> r" by simp
  finally show "2 ^ nat (bitlen \<lfloor>r\<rfloor> - 1) \<le> r" by simp
  from hi have "?n + 1 \<le> 2 ^ nat (bitlen ?n)" by simp
  then have "(of_int (?n + 1) :: rat) \<le> of_int (2 ^ nat (bitlen ?n))"
    by (simp only: of_int_le_iff)
  moreover have "r < of_int (?n + 1)" by linarith
  ultimately show "r < 2 ^ nat (bitlen \<lfloor>r\<rfloor>)" by simp
  from n show "1 \<le> bitlen \<lfloor>r\<rfloor>"
    using bitlen_eq_zero_iff [of ?n] bitlen_nonneg [of ?n] by linarith
qed

lemma floor_log2_bounds:
  assumes "0 < q"
  shows "pow2 (floor_log2 q) \<le> q \<and> q < pow2 (floor_log2 q + 1)"
proof (cases "1 \<le> q")
  case True
  from floor_bitlen_bounds [OF True] True show ?thesis
    by (simp add: floor_log2_def pow2_def nat_add_distrib)
next
  case False
  define r where "r = 1 / q"
  define k where "k = bitlen \<lfloor>r\<rfloor> - 1"
  from False assms have r1: "1 \<le> r" by (simp add: r_def)
  from assms have q: "q = 1 / r" by (simp add: r_def)
  from floor_bitlen_bounds [OF r1]
  have lo: "2 ^ nat k \<le> r" and hi: "r < 2 ^ nat (k + 1)" and k0: "0 \<le> k"
    by (simp_all add: k_def)
  have rpos: "0 < r" using r1 by simp
  have unfolded: "floor_log2 q = (if r = 2 ^ nat k then - k else - (k + 1))"
    using False by (simp add: floor_log2_def r_def k_def Let_def)
  have p1: "pow2 (- k) = 1 / 2 ^ nat k"
    using k0 by (cases "k = 0") (simp_all add: pow2_def)
  have p2: "pow2 (- (k + 1)) = 1 / 2 ^ nat (k + 1)"
    using k0 by (simp add: pow2_def)
  have step: "pow2 (- k) < pow2 (- k + 1)"
    unfolding pow2_eq_powi by (rule power_int_strict_increasing) simp_all
  show ?thesis
  proof (cases "r = 2 ^ nat k")
    case True
    have fl: "floor_log2 q = - k"
      using True unfolded by presburger
    from True q p1 have "pow2 (- k) = q" by simp
    with step show ?thesis by (simp add: fl)
  next
    case ne: False
    have fl: "floor_log2 q = - (k + 1)"
      using ne unfolded by presburger
    from lo ne have lo': "2 ^ nat k < r" by simp
    have a: "pow2 (- (k + 1)) \<le> q"
      unfolding p2 q using hi rpos by (simp add: frac_le)
    have "q < pow2 (- k)"
      unfolding p1 q using lo' by (simp add: frac_less2)
    with a show ?thesis by (simp add: fl)
  qed
qed

text \<open>The rounded integer is a nearest one.\<close>

lemma round_half_even_nearest: "\<bar>of_int (round_half_even x) - x\<bar> \<le> 1 / 2"
proof -
  have "of_int \<lfloor>x\<rfloor> \<le> x" and "x < of_int \<lfloor>x\<rfloor> + 1" by linarith+
  then show ?thesis
    by (auto simp: round_half_even_def Let_def abs_le_iff)
qed

section \<open>Facts about sequencing and construction\<close>

lemma and_then_Inr_iff:
  "and_then r f = Inr y \<longleftrightarrow> (\<exists>x. r = Inr x \<and> f x = Inr y)"
  by (cases r) (simp_all add: and_then_def)


text \<open>Construction succeeds exactly when every read and the subtraction succeed.\<close>

lemma process_data_Inr_iff:
  "process_data raw = Inr wd \<longleftrightarrow>
     (\<exists>ws weather main_data k.
        getitem_str raw ''weather'' = Inr ws \<and>
        getitem_int ws 0 = Inr weather \<and>
        getitem_str raw ''main'' = Inr main_data \<and>
        getitem_str weather ''main'' = Inr (attr_climate wd) \<and>
        getitem_str weather ''description'' = Inr (attr_description wd) \<and>
        getitem_str main_data ''temp'' = Inr k \<and>
        py_sub k c273_15 = Inr (attr_temperature wd) \<and>
        getitem_str main_data ''pressure'' = Inr (attr_pressure wd) \<and>
        getitem_str main_data ''humidity'' = Inr (attr_humidity wd) \<and>
        raw_data wd = raw \<and> WeatherData.more wd = ())"
  unfolding process_data_def and_then_Inr_iff
  by (cases wd) auto







section \<open>Facts about the samples and the flow\<close>

lemma clouds_record_built: "WeatherData_init clouds_payload = Inr clouds_record"
  by code_simp

lemma freezing_record_built: "WeatherData_init freezing_payload = Inr freezing_record"
  by code_simp

lemma odd_record_built: "WeatherData_init odd_payload = Inr odd_record"
  by code_simp

lemma py_sub_298_15: "py_sub (PFloat c298_15) c273_15 = Inr (Finite 25)"
  by code_simp

lemma py_sub_273_15: "py_sub (PFloat c273_15) c273_15 = Inr (Finite 0)"
  by code_simp

lemma py_round_25: "py_round (Finite 25) 1 = Finite 25"
  by code_simp

lemma py_round_0: "py_round (Finite 0) 1 = Finite 0"
  by code_simp

text \<open>An int \<open>temp\<close> of 300 is shown as \<open>26.9\<close>.\<close>

lemma odd_record_temperature:
  "temperature odd_record = Finite (3785838436758323 / 140737488355328)"
  by code_simp

lemma get_weather_snd:
  "snd (get_weather self get city reqs) =
     reqs @ [base_url self @ ''?q='' @ city @ ''&appid='' @ api_key self]"
  by (simp add: get_weather_def Let_def)

lemma get_weather_fst:
  "fst (get_weather self get city reqs) =
     (case (case get (base_url self @ ''?q='' @ city @ ''&appid='' @ api_key self) of
              Inl e \<Rightarrow> Inl e
            | Inr response \<Rightarrow>
                (case raise_for_status response of Some e \<Rightarrow> Inl e | None \<Rightarrow> json response)) of
        Inl (RequestException msg) \<Rightarrow>
          Inl (WeatherAPIError (''Failed to fetch weather data: '' @ msg))
      | other \<Rightarrow> other)"
  by (simp add: get_weather_def Let_def)

lemma get_weather_independent_of_log:
  "fst (get_weather self get city reqs) = fst (get_weather self get city reqs')"
  by (simp add: get_weather_fst)

lemma except_clause_cases:
  "except_clause e w = (out, w') \<Longrightarrow>
     (\<exists>m. (e = WeatherAPIError m \<or> e = ValueError m) \<and> out = Reported e \<and> w' = show_error m w)
     \<or> (out = Raised e \<and> w' = w \<and> (\<forall>m. e \<noteq> WeatherAPIError m \<and> e \<noteq> ValueError m))"
  by (cases e) (auto simp: except_clause_def)

text \<open>The three ways the callback can go.\<close>

lemma fetch_weather_cases:
  assumes "fetch_weather get w = (out, w')"
  shows "(city_name (app w) = [] \<and> (out, w') = except_clause (ValueError ''Please select a city'') w)
       \<or> (\<exists>e. city_name (app w) \<noteq> []
              \<and> fst (get_weather (api (app w)) get (city_name (app w)) (sent w)) = Inl e
              \<and> (out, w') = except_clause e
                    (w\<lparr>sent := snd (get_weather (api (app w)) get (city_name (app w)) (sent w))\<rparr>))
       \<or> (\<exists>raw e. city_name (app w) \<noteq> []
              \<and> fst (get_weather (api (app w)) get (city_name (app w)) (sent w)) = Inr raw
              \<and> WeatherData_init raw = Inl e
              \<and> (out, w') = except_clause e
                    (w\<lparr>sent := snd (get_weather (api (app w)) get (city_name (app w)) (sent w))\<rparr>))
       \<or> (\<exists>raw wd. city_name (app w) \<noteq> []
              \<and> fst (get_weather (api (app w)) get (city_name (app w)) (sent w)) = Inr raw
              \<and> WeatherData_init raw = Inr wd
              \<and> out = Displayed
              \<and> w' = w\<lparr>sent := snd (get_weather (api (app w)) get (city_name (app w)) (sent w)),
                       app := (app w)\<lparr>display := update_display (display (app w)) wd\<rparr>\<rparr>)"
  using assms
  by (cases "get_weather (api (app w)) get (city_name (app w)) (sent w)")
     (auto simp: fetch_weather_def Let_def split: sum.splits if_splits)

section \<open>The record and the payload\<close>

text \<open>Reading the sample payloads.\<close>

lemma clouds_main:
  "getitem_str clouds_payload ''main'' =
     Inr (PDict [(''temp'', PFloat c298_15),
                 (''pressure'', PInt 1012), (''humidity'', PInt 77)])"
  by (simp add: clouds_payload_def getitem_str_def)

lemma freezing_main:
  "getitem_str freezing_payload ''main'' =
     Inr (PDict [(''temp'', PFloat c273_15),
                 (''pressure'', PInt 1012), (''humidity'', PInt 77)])"
  by (simp add: freezing_payload_def getitem_str_def)

lemma clouds_weather:
  "getitem_str clouds_payload ''weather'' =
     Inr (PList (PDict [(''main'', PStr ''Clouds''),
                        (''description'', PStr ''overcast clouds'')] # []))"
  by (simp add: clouds_payload_def getitem_str_def)

text \<open>
  C2. Whenever a record is constructed from a payload, its \<open>temperature\<close> is
  \<open>round(temp - 273.15, 1)\<close> for the payload's \<open>main.temp\<close> (the subtraction
  succeeds, so \<open>temp\<close> is a number); \<open>temp = 273.15\<close> gives \<open>0.0\<close> and
  \<open>temp = 298.15\<close> gives \<open>25.0\<close>.
\<close>

theorem temperature_rounded_celsius:
  assumes "WeatherData_init raw = Inr wd"
    and "getitem_str raw ''main'' = Inr main_data"
    and "getitem_str main_data ''temp'' = Inr temp"
  shows "(\<exists>x. py_sub temp c273_15 = Inr x \<and> temperature wd = py_round x 1)
       \<and> (temp = PFloat c273_15 \<longrightarrow> temperature wd = Finite 0)
       \<and> (temp = PFloat c298_15 \<longrightarrow> temperature wd = Finite 25)"
proof -
  from assms have sub: "py_sub temp c273_15 = Inr (attr_temperature wd)"
    by (auto simp: WeatherData_init_def process_data_Inr_iff)
  have general: "\<exists>x. py_sub temp c273_15 = Inr x \<and> temperature wd = py_round x 1"
    using sub by (simp add: temperature_def)
  have zero: "temperature wd = Finite 0" if "temp = PFloat c273_15"
  proof -
    from sub that py_sub_273_15 have "attr_temperature wd = Finite 0" by simp
    then show ?thesis by (simp only: temperature_def py_round_0)
  qed
  have warm: "temperature wd = Finite 25" if "temp = PFloat c298_15"
  proof -
    from sub that py_sub_298_15 have "attr_temperature wd = Finite 25" by simp
    then show ?thesis by (simp only: temperature_def py_round_25)
  qed
  from general zero warm show ?thesis by blast
qed

text \<open>The two boundary payloads, constructed and read.\<close>

theorem temperature_rounded_celsius_witness:
  "WeatherData_init clouds_payload = Inr clouds_record
   \<and> temperature clouds_record = Finite 25
   \<and> WeatherData_init freezing_payload = Inr freezing_record
   \<and> temperature freezing_record = Finite 0"
proof -
  have t1: "getitem_str (PDict [(''temp'', PFloat c298_15),
                 (''pressure'', PInt 1012), (''humidity'', PInt 77)]) ''temp''
            = Inr (PFloat c298_15)"
    by (simp add: getitem_str_def)
  have t2: "getitem_str (PDict [(''temp'', PFloat c273_15),
                 (''pressure'', PInt 1012), (''humidity'', PInt 77)]) ''temp''
            = Inr (PFloat c273_15)"
    by (simp add: getitem_str_def)
  from temperature_rounded_celsius [OF clouds_record_built clouds_main t1]
  have "temperature clouds_record = Finite 25" by simp
  moreover from temperature_rounded_celsius [OF freezing_record_built freezing_main t2]
  have "temperature freezing_record = Finite 0" by simp
  ultimately show ?thesis
    using clouds_record_built freezing_record_built by simp
qed

text \<open>
  C3, as stated, fails: the payload with \<open>"pressure":0\<close> and \<open>"humidity":101\<close>
  yields a record, and the record has pressure 0 and humidity 101.
\<close>

theorem ranges_not_enforced:
  "WeatherData_init odd_payload = Inr odd_record
   \<and> \<not> pressure_ok (pressure odd_record)
   \<and> \<not> humidity_ok (humidity odd_record)"
  using odd_record_built
  by (simp add: odd_record_def pressure_def humidity_def pressure_ok_def humidity_ok_def)

text \<open>
  C3, amended. Construction copies \<open>main.pressure\<close> and \<open>main.humidity\<close> and
  checks neither: the record's pressure is an integer above 0 and its humidity an
  integer from 0 to 100 whenever the payload's values are.
\<close>

theorem ranges_pass_through:
  assumes "WeatherData_init raw = Inr wd"
    and "getitem_str raw ''main'' = Inr main_data"
    and "getitem_str main_data ''pressure'' = Inr p" and "pressure_ok p"
    and "getitem_str main_data ''humidity'' = Inr h" and "humidity_ok h"
  shows "pressure_ok (pressure wd) \<and> humidity_ok (humidity wd)"
  using assms
  by (auto simp: WeatherData_init_def process_data_Inr_iff pressure_def humidity_def)

text \<open>The sample payload has pressure 1012 and humidity 77, and so has its record.\<close>

theorem ranges_pass_through_witness:
  "WeatherData_init clouds_payload = Inr clouds_record
   \<and> pressure_ok (PInt 1012) \<and> humidity_ok (PInt 77)
   \<and> pressure_ok (pressure clouds_record) \<and> humidity_ok (humidity clouds_record)"
proof -
  have p: "getitem_str (PDict [(''temp'', PFloat c298_15),
                 (''pressure'', PInt 1012), (''humidity'', PInt 77)]) ''pressure''
            = Inr (PInt 1012)"
    by (simp add: getitem_str_def)
  have h: "getitem_str (PDict [(''temp'', PFloat c298_15),
                 (''pressure'', PInt 1012), (''humidity'', PInt 77)]) ''humidity''
            = Inr (PInt 77)"
    by (simp add: getitem_str_def)
  have pok: "pressure_ok (PInt 1012)" by (simp add: pressure_ok_def)
  have hok: "humidity_ok (PInt 77)" by (simp add: humidity_ok_def)
  from ranges_pass_through [OF clouds_record_built clouds_main p pok h hok] pok hok
  show ?thesis using clouds_record_built by simp
qed

text \<open>
  C6. For a payload with a non-empty \<open>weather\<close> list and a \<open>main\<close> entry, the
  constructed record's climate is \<open>weather[0].main\<close>, its description is
  \<open>weather[0].description\<close>, and its pressure and humidity are \<open>main.pressure\<close>
  and \<open>main.humidity\<close>, unchanged.
\<close>

theorem fields_read_from_payload:
  assumes "WeatherData_init raw = Inr wd"
    and "getitem_str raw ''weather'' = Inr (PList (first # others))"
    and "getitem_str raw ''main'' = Inr main_data"
  shows "getitem_str first ''main'' = Inr (climate wd)
       \<and> getitem_str first ''description'' = Inr (description wd)
       \<and> getitem_str main_data ''pressure'' = Inr (pressure wd)
       \<and> getitem_str main_data ''humidity'' = Inr (humidity wd)"
  using assms
  by (auto simp: WeatherData_init_def process_data_Inr_iff getitem_int_def seq_index_def
                 climate_def description_def pressure_def humidity_def)

text \<open>The five values of the sample payload arrive in the record.\<close>

theorem fields_read_from_payload_witness:
  "WeatherData_init clouds_payload = Inr clouds_record
   \<and> climate clouds_record = PStr ''Clouds''
   \<and> description clouds_record = PStr ''overcast clouds''
   \<and> pressure clouds_record = PInt 1012
   \<and> humidity clouds_record = PInt 77"
  using fields_read_from_payload [OF clouds_record_built clouds_weather clouds_main]
    clouds_record_built
  by (simp add: getitem_str_def)

section \<open>The fetch-and-display flow\<close>

lemma selected_simps:
  "city_name (app (selected city)) = city"
  "api (app (selected city)) = WeatherAPI_init ''''"
  "display (app (selected city)) = create_labels"
  "stdout (selected city) = []"
  "sent (selected city) = []"
  by (simp_all add: selected_def WeatherApp_init_def)

lemma get_weather_stub_returning:
  "get_weather self (stub_returning payload) city reqs =
     (Inr payload, reqs @ [base_url self @ ''?q='' @ city @ ''&appid='' @ api_key self])"
  by (simp add: get_weather_def stub_returning_def Let_def)










lemma fetch_weather_no_city:
  assumes "city_name (app w) = []"
  shows "fetch_weather get w =
           (Reported (ValueError ''Please select a city''),
            w\<lparr>stdout := stdout w @ [''Error: Please select a city'']\<rparr>)"
  using assms by (simp add: fetch_weather_def except_clause_def show_error_def)


text \<open>
  C4. With the empty string as the selected city the flow raises
  \<open>ValueError("Please select a city")\<close>, which is caught and reported, and it
  requests no URL: \<open>get_weather\<close> is not called.
\<close>

theorem no_city_no_request:
  assumes "city_name (app w) = []"
  shows "fetch_weather get w =
           (Reported (ValueError ''Please select a city''),
            w\<lparr>stdout := stdout w @ [''Error: Please select a city'']\<rparr>)
       \<and> sent (snd (fetch_weather get w)) = sent w"
  using assms by (simp add: fetch_weather_no_city)

text \<open>
  The shipped application with nothing selected.
\<close>

theorem no_city_no_request_witness:
  "city_name (app (selected '''')) = []
   \<and> fst (fetch_weather (stub_returning clouds_payload) (selected ''''))
       = Reported (ValueError ''Please select a city'')
   \<and> sent (snd (fetch_weather (stub_returning clouds_payload) (selected ''''))) = []"
proof -
  have h: "city_name (app (selected '''')) = []" by (simp add: selected_simps)
  from no_city_no_request [OF h, of "stub_returning clouds_payload"] h
  show ?thesis by (simp add: selected_simps)
qed

lemma get_weather_request_exception:
  assumes "get (base_url self @ ''?q='' @ city @ ''&appid='' @ api_key self)
             = Inl (RequestException cause)
         \<or> (\<exists>r. get (base_url self @ ''?q='' @ city @ ''&appid='' @ api_key self) = Inr r
                \<and> raise_for_status r = Some (RequestException cause))"
  shows "get_weather self get city reqs =
           (Inl (WeatherAPIError (''Failed to fetch weather data: '' @ cause)),
            reqs @ [base_url self @ ''?q='' @ city @ ''&appid='' @ api_key self])"
  using assms by (auto simp: get_weather_def Let_def)

text \<open>
  C5. When \<open>requests.get\<close> or \<open>raise_for_status\<close> raises a
  \<open>RequestException\<close> with text \<open>cause\<close>, \<open>get_weather\<close> raises
  \<open>WeatherAPIError("Failed to fetch weather data: " + cause)\<close>, and the flow catches
  it and prints that message after \<open>Error: \<close>; no exception leaves the flow.
\<close>

theorem transport_failure_reported:
  assumes "get (base_url self @ ''?q='' @ city @ ''&appid='' @ api_key self)
             = Inl (RequestException cause)
         \<or> (\<exists>r. get (base_url self @ ''?q='' @ city @ ''&appid='' @ api_key self) = Inr r
                \<and> raise_for_status r = Some (RequestException cause))"
  shows "fst (get_weather self get city reqs)
           = Inl (WeatherAPIError (''Failed to fetch weather data: '' @ cause))
       \<and> (api (app w) = self \<and> city_name (app w) = city \<and> city \<noteq> [] \<longrightarrow>
            fetch_weather get w =
              (Reported (WeatherAPIError (''Failed to fetch weather data: '' @ cause)),
               w\<lparr>sent := sent w @ [base_url self @ ''?q='' @ city @ ''&appid='' @ api_key self],
                  stdout := stdout w @ [''Error: Failed to fetch weather data: '' @ cause]\<rparr>))"
proof -
  note g = get_weather_request_exception
    [where get = get and self = self and city = city and cause = cause, OF assms]
  have "fetch_weather get w =
              (Reported (WeatherAPIError (''Failed to fetch weather data: '' @ cause)),
               w\<lparr>sent := sent w @ [base_url self @ ''?q='' @ city @ ''&appid='' @ api_key self],
                  stdout := stdout w @ [''Error: Failed to fetch weather data: '' @ cause]\<rparr>)"
    if "api (app w) = self" "city_name (app w) = city" "city \<noteq> []"
    using that g [where reqs = "sent w"]
    by (simp add: fetch_weather_def Let_def except_clause_def show_error_def)
  with g [where reqs = reqs] show ?thesis by simp
qed

text \<open>
  A refused connection and a bad status.
\<close>

theorem transport_failure_reported_witness:
  "fetch_weather (stub_raising (RequestException ''connection refused'')) (selected ''Goa'') =
     (Reported (WeatherAPIError ''Failed to fetch weather data: connection refused''),
      (selected ''Goa'')
        \<lparr>sent := [''https://api.openweathermap.org/data/2.5/weather?q=Goa&appid=''],
         stdout := [''Error: Failed to fetch weather data: connection refused'']\<rparr>)
   \<and> fetch_weather (stub_bad_status (RequestException ''404 Client Error'')) (selected ''Goa'') =
     (Reported (WeatherAPIError ''Failed to fetch weather data: 404 Client Error''),
      (selected ''Goa'')
        \<lparr>sent := [''https://api.openweathermap.org/data/2.5/weather?q=Goa&appid=''],
         stdout := [''Error: Failed to fetch weather data: 404 Client Error'']\<rparr>)"
proof -
  have a: "stub_raising (RequestException ''connection refused'')
             (base_url (WeatherAPI_init '''') @ ''?q='' @ ''Goa'' @ ''&appid=''
                @ api_key (WeatherAPI_init ''''))
             = Inl (RequestException ''connection refused'')
         \<or> (\<exists>r. stub_raising (RequestException ''connection refused'')
             (base_url (WeatherAPI_init '''') @ ''?q='' @ ''Goa'' @ ''&appid=''
                @ api_key (WeatherAPI_init '''')) = Inr r
                \<and> raise_for_status r = Some (RequestException ''connection refused''))"
    by (simp add: stub_raising_def)
  have b: "stub_bad_status (RequestException ''404 Client Error'')
             (base_url (WeatherAPI_init '''') @ ''?q='' @ ''Goa'' @ ''&appid=''
                @ api_key (WeatherAPI_init ''''))
             = Inl (RequestException ''404 Client Error'')
         \<or> (\<exists>r. stub_bad_status (RequestException ''404 Client Error'')
             (base_url (WeatherAPI_init '''') @ ''?q='' @ ''Goa'' @ ''&appid=''
                @ api_key (WeatherAPI_init '''')) = Inr r
                \<and> raise_for_status r = Some (RequestException ''404 Client Error''))"
    by (simp add: stub_bad_status_def)
  from transport_failure_reported
      [where get = "stub_raising (RequestException ''connection refused'')"
         and self = "WeatherAPI_init ''''" and city = "''Goa''"
         and cause = "''connection refused''" and reqs = "[]"
         and w = "selected ''Goa''", OF a]
    transport_failure_reported
      [where get = "stub_bad_status (RequestException ''404 Client Error'')"
         and self = "WeatherAPI_init ''''" and city = "''Goa''"
         and cause = "''404 Client Error''" and reqs = "[]"
         and w = "selected ''Goa''", OF b]
  show ?thesis by (simp add: selected_simps WeatherAPI_init_def)
qed

section \<open>Requests, repeated fetches and the display\<close>



text \<open>Without a NaN inside, a value equals itself.\<close>

lemma py_eq_refl: "\<not> has_nan v \<Longrightarrow> py_eq v v"
proof (induction v)
  case (PList xs)
  then show ?case by (auto simp: list_all2_same)
next
  case (PDict d)
  then show ?case by (fastforce simp: map_of_eq_Some_iff dest: map_of_SomeD)
qed (simp_all add: number_of_def float_eq_def)

text \<open>The temperature is NaN only for a NaN \<open>temp\<close>.\<close>

lemma c273_15_finite: "c273_15 = Finite (2402652809016115 / 8796093022208)"
  unfolding c273_15_def by code_simp

lemma to_double_not_NaN: "to_double q \<noteq> NaN"
  by (simp add: to_double_def Let_def)

lemma float_sub_finite_NaN: "float_sub x (Finite b) = NaN \<longleftrightarrow> x = NaN"
  by (cases x) (simp_all add: to_double_not_NaN)

lemma float_of_int_not_NaN: "float_of_int n = Inr x \<Longrightarrow> x \<noteq> NaN"
  by (auto simp: float_of_int_def split: pyfloat.splits)

lemma py_sub_NaN:
  assumes "py_sub k c273_15 = Inr t" and "\<not> has_nan k"
  shows "t \<noteq> NaN"
  using assms
  by (cases k)
     (auto simp: py_sub_def c273_15_finite float_sub_finite_NaN and_then_Inr_iff
           dest: float_of_int_not_NaN)

lemma py_round_NaN: "py_round t n = NaN \<longleftrightarrow> t = NaN"
  by (cases t) (simp_all add: py_round_def to_double_not_NaN)

lemma nan_record_built: "WeatherData_init nan_payload = Inr nan_record"
  by code_simp

text \<open>
  C8, as stated, fails: two fetches of the payload with \<open>"temp":NaN\<close> give two
  records whose temperature fields are both NaN, and a NaN is not equal to a NaN.
\<close>

theorem nan_temperature_unequal:
  "get_weather (WeatherAPI_init '''') (stub_returning nan_payload) ''Goa'' []
     = (Inr nan_payload, [''https://api.openweathermap.org/data/2.5/weather?q=Goa&appid=''])
   \<and> get_weather (WeatherAPI_init '''') (stub_returning nan_payload) ''Goa''
         [''https://api.openweathermap.org/data/2.5/weather?q=Goa&appid='']
     = (Inr nan_payload, [''https://api.openweathermap.org/data/2.5/weather?q=Goa&appid='',
                          ''https://api.openweathermap.org/data/2.5/weather?q=Goa&appid=''])
   \<and> WeatherData_init nan_payload = Inr nan_record
   \<and> \<not> float_eq (temperature nan_record) (temperature nan_record)"
  using nan_record_built
  by (simp add: get_weather_stub_returning WeatherAPI_init_def float_eq_def temperature_def
        nan_record_def py_round_def)

text \<open>
  C8, amended. When none of the five values read from the payload
  (\<open>weather[0].main\<close>, \<open>weather[0].description\<close>, \<open>main.temp\<close>,
  \<open>main.pressure\<close>, \<open>main.humidity\<close>) is or holds a NaN, two successive fetches
  with the same inputs against the same transport give two records whose five fields
  are pairwise equal under \<open>==\<close>.
\<close>

theorem refetch_equal_fields:
  assumes "get_weather self get city reqs = (Inr raw1, reqs1)"
    and "get_weather self get city reqs1 = (Inr raw2, reqs2)"
    and "WeatherData_init raw1 = Inr wd1"
    and "WeatherData_init raw2 = Inr wd2"
    and "getitem_str raw1 ''weather'' = Inr ws"
    and "getitem_int ws 0 = Inr weather"
    and "getitem_str raw1 ''main'' = Inr main_data"
    and "getitem_str weather ''main'' = Inr c" and "\<not> has_nan c"
    and "getitem_str weather ''description'' = Inr d" and "\<not> has_nan d"
    and "getitem_str main_data ''temp'' = Inr k" and "\<not> has_nan k"
    and "getitem_str main_data ''pressure'' = Inr p" and "\<not> has_nan p"
    and "getitem_str main_data ''humidity'' = Inr h" and "\<not> has_nan h"
  shows "py_eq (climate wd1) (climate wd2)
       \<and> py_eq (description wd1) (description wd2)
       \<and> float_eq (temperature wd1) (temperature wd2)
       \<and> py_eq (pressure wd1) (pressure wd2)
       \<and> py_eq (humidity wd1) (humidity wd2)"
proof -
  from assms(1,2) get_weather_independent_of_log [of self get city reqs reqs1]
  have "raw1 = raw2" by simp
  with assms(3,4) have same: "wd2 = wd1" by simp
  from assms(3,5-8,10,12,14,16)
  have fields: "attr_climate wd1 = c" "attr_description wd1 = d"
      "attr_pressure wd1 = p" "attr_humidity wd1 = h"
    and sub: "py_sub k c273_15 = Inr (attr_temperature wd1)"
    by (auto simp: WeatherData_init_def process_data_Inr_iff)
  from py_sub_NaN [OF sub \<open>\<not> has_nan k\<close>] have "temperature wd1 \<noteq> NaN"
    by (simp add: temperature_def py_round_NaN)
  then have t: "float_eq (temperature wd1) (temperature wd1)"
    by (simp add: float_eq_def)
  from fields assms(9,11,15,17)
  have "py_eq (climate wd1) (climate wd1)" "py_eq (description wd1) (description wd1)"
    "py_eq (pressure wd1) (pressure wd1)" "py_eq (humidity wd1) (humidity wd1)"
    by (simp_all add: climate_def description_def pressure_def humidity_def py_eq_refl)
  with t same show ?thesis by simp
qed

text \<open>
  Two fetches of the sample payload.
\<close>

theorem refetch_equal_fields_witness:
  "get_weather (WeatherAPI_init '''') (stub_returning clouds_payload) ''Goa'' []
     = (Inr clouds_payload, [''https://api.openweathermap.org/data/2.5/weather?q=Goa&appid=''])
   \<and> get_weather (WeatherAPI_init '''') (stub_returning clouds_payload) ''Goa''
         [''https://api.openweathermap.org/data/2.5/weather?q=Goa&appid='']
     = (Inr clouds_payload, [''https://api.openweathermap.org/data/2.5/weather?q=Goa&appid='',
                             ''https://api.openweathermap.org/data/2.5/weather?q=Goa&appid=''])
   \<and> WeatherData_init clouds_payload = Inr clouds_record
   \<and> \<not> has_nan (PStr ''Clouds'') \<and> \<not> has_nan (PStr ''overcast clouds'')
   \<and> \<not> has_nan (PFloat c298_15) \<and> \<not> has_nan (PInt 1012) \<and> \<not> has_nan (PInt 77)
   \<and> py_eq (climate clouds_record) (PStr ''Clouds'')
   \<and> py_eq (description clouds_record) (PStr ''overcast clouds'')
   \<and> float_eq (temperature clouds_record) (Finite 25)
   \<and> py_eq (pressure clouds_record) (PInt 1012)
   \<and> py_eq (humidity clouds_record) (PInt 77)"
proof -
  let ?u = "''https://api.openweathermap.org/data/2.5/weather?q=Goa&appid=''"
  let ?first = "PDict [(''main'', PStr ''Clouds''), (''description'', PStr ''overcast clouds'')]"
  let ?main = "PDict [(''temp'', PFloat c298_15), (''pressure'', PInt 1012),
                      (''humidity'', PInt 77)]"
  have a: "get_weather (WeatherAPI_init '''') (stub_returning clouds_payload) ''Goa'' []
     = (Inr clouds_payload, [?u])"
    by (simp add: get_weather_stub_returning WeatherAPI_init_def)
  have b: "get_weather (WeatherAPI_init '''') (stub_returning clouds_payload) ''Goa'' [?u]
     = (Inr clouds_payload, [?u, ?u])"
    by (simp add: get_weather_stub_returning WeatherAPI_init_def)
  have first: "getitem_int (PList [?first]) 0 = Inr ?first"
    by (simp add: getitem_int_def seq_index_def)
  have c: "getitem_str ?first ''main'' = Inr (PStr ''Clouds'')"
    and d: "getitem_str ?first ''description'' = Inr (PStr ''overcast clouds'')"
    and k: "getitem_str ?main ''temp'' = Inr (PFloat c298_15)"
    and p: "getitem_str ?main ''pressure'' = Inr (PInt 1012)"
    and h: "getitem_str ?main ''humidity'' = Inr (PInt 77)"
    by (simp_all add: getitem_str_def)
  have c298: "c298_15 \<noteq> NaN"
    by (simp add: c298_15_def to_double_not_NaN)
  have nc: "\<not> has_nan (PStr ''Clouds'')" and nd: "\<not> has_nan (PStr ''overcast clouds'')"
    and nk: "\<not> has_nan (PFloat c298_15)" and np: "\<not> has_nan (PInt 1012)"
    and nh: "\<not> has_nan (PInt 77)"
    using c298 by simp_all
  have t: "temperature clouds_record = Finite 25"
    by (simp only: temperature_def clouds_record_def WeatherData.simps py_round_25)
  have f: "climate clouds_record = PStr ''Clouds''"
    "description clouds_record = PStr ''overcast clouds''"
    "pressure clouds_record = PInt 1012" "humidity clouds_record = PInt 77"
    by (simp_all add: climate_def description_def pressure_def humidity_def clouds_record_def)
  from refetch_equal_fields
    [OF a b clouds_record_built clouds_record_built clouds_weather first clouds_main
        c nc d nd k nk p np h nh]
  have "py_eq (climate clouds_record) (PStr ''Clouds'')
      \<and> py_eq (description clouds_record) (PStr ''overcast clouds'')
      \<and> float_eq (temperature clouds_record) (Finite 25)
      \<and> py_eq (pressure clouds_record) (PInt 1012)
      \<and> py_eq (humidity clouds_record) (PInt 77)"
    by (simp only: t f)
  with a b clouds_record_built nc nd nk np nh show ?thesis by blast
qed




lemma fetch_weather_sent:
  assumes "city_name (app w) \<noteq> []"
  shows "sent (snd (fetch_weather get w)) =
           sent w @ [base_url (api (app w)) @ ''?q='' @ city_name (app w) @ ''&appid=''
                       @ api_key (api (app w))]"
proof -
  obtain out w' where r: "fetch_weather get w = (out, w')" by (cases "fetch_weather get w")
  from fetch_weather_cases [OF r] assms
  have "sent w' = snd (get_weather (api (app w)) get (city_name (app w)) (sent w))"
    by (auto dest!: except_clause_cases [OF sym] simp: show_error_def)
  with r show ?thesis by (simp add: get_weather_snd)
qed

text \<open>
  C10. The shipped application constructs its \<open>WeatherAPI\<close> with the empty string
  as the key, so for every city the URL it requests ends with \<open>appid=\<close> and
  nothing after it.
\<close>

theorem shipped_key_is_empty:
  "api WeatherApp_init = WeatherAPI_init ''''
   \<and> api_key (api WeatherApp_init) = ''''
   \<and> snd (get_weather (api WeatherApp_init) get city reqs) =
       reqs @ [''https://api.openweathermap.org/data/2.5/weather?q='' @ city @ ''&appid='']
   \<and> suffix ''appid='' (last (snd (get_weather (api WeatherApp_init) get city reqs)))
   \<and> (city \<noteq> [] \<longrightarrow>
        sent (snd (fetch_weather get (selected city))) =
          [''https://api.openweathermap.org/data/2.5/weather?q='' @ city @ ''&appid=''])"
proof -
  have u: "snd (get_weather (api WeatherApp_init) get city reqs) =
       reqs @ [''https://api.openweathermap.org/data/2.5/weather?q='' @ city @ ''&appid='']"
    by (simp add: get_weather_snd WeatherApp_init_def WeatherAPI_init_def)
  have "suffix ''appid=''
          (''https://api.openweathermap.org/data/2.5/weather?q='' @ city @ ''&appid='')"
    by (rule suffixI [of _ "''https://api.openweathermap.org/data/2.5/weather?q='' @ city @ ''&''"])
       simp
  with u have s: "suffix ''appid='' (last (snd (get_weather (api WeatherApp_init) get city reqs)))"
    by simp
  have f: "sent (snd (fetch_weather get (selected city))) =
          [''https://api.openweathermap.org/data/2.5/weather?q='' @ city @ ''&appid='']"
    if "city \<noteq> []"
    using that fetch_weather_sent [of "selected city" get]
    by (simp add: selected_simps WeatherAPI_init_def)
  from u s f show ?thesis
    by (simp add: WeatherApp_init_def WeatherAPI_init_def)
qed

text \<open>
  The shipped application asked for Goa.
\<close>

theorem shipped_key_is_empty_witness:
  "sent (snd (fetch_weather (stub_returning clouds_payload) (selected ''Goa''))) =
     [''https://api.openweathermap.org/data/2.5/weather?q=Goa&appid='']"
  using shipped_key_is_empty [of "stub_returning clouds_payload" "''Goa''" "[]"]
  by simp

end
